theory Spec2Isabelle
  imports Main
begin

section \<open>The component manager of \<^verbatim>\<open>sic_framework/core/component_manager_python2.py\<close>\<close>

text \<open>
  The manager is Python code that mutates objects shared between several owners
  (\<^verbatim>\<open>threading.Event\<close> objects, reply objects, a class-level dictionary), so the
  embedding threads an explicit store through every function:
  \<^item> a \<open>process\<close> record holds what belongs to the interpreter process: the store of
    event objects, the store of reply objects, the class attribute
    \<^verbatim>\<open>SICSensorManager.started_components\<close> and the trace of what was printed or logged;
  \<^item> a \<open>manager\<close> record holds the instance attributes that \<^verbatim>\<open>__init__\<close> assigns;
  \<^item> every function returns the exception that leaves it (\<open>Inl\<close>) or its value
    (\<open>Inr\<close>), together with the updated manager and process;
  \<^item> what the collaborators outside the file do in one call (whether the component
    constructor raises, whether the launched thread reports ready in time, whether closing
    the bus connection raises) is an argument of the call, so a theorem quantifies over it.
\<close>

subsection \<open>Exceptions\<close>

text \<open>
  A raised object, as far as the file looks at it: its class, its \<^verbatim>\<open>message\<close> attribute
  and whether it is an instance of \<^verbatim>\<open>Exception\<close>. \<open>exn_message\<close> is \<open>None\<close> when the
  object has no such attribute (every exception of Python 2 has one; under Python 3 only
  classes that define it themselves). \<open>is_Exception\<close> is what the clauses
  \<^verbatim>\<open>except Exception\<close> of lines 186 and 197 test: it is \<open>False\<close> for \<^verbatim>\<open>SystemExit\<close>,
  \<^verbatim>\<open>KeyboardInterrupt\<close>, \<^verbatim>\<open>GeneratorExit\<close> and every other class derived from
  \<^verbatim>\<open>BaseException\<close> only, which those clauses let pass.
\<close>

datatype exn = Exn (exn_class: string) (exn_message: "string option") (is_Exception: bool)

definition AttributeError :: exn where
  "AttributeError = Exn ''AttributeError'' None True"

definition KeyError :: exn where
  "KeyError = Exn ''KeyError'' None True"

subsection \<open>Messages\<close>

type_synonym addr = nat

datatype request =
    SICStopRequest
  | SICStartComponentRequest (component_name: string) (log_level: nat) (conf: "string option")

datatype msg_body =
    SICSuccessMessage
  | SICIgnoreRequestMessage
  | SICStartedComponentInformation (output_channel: string)
  | SICNotStartedMessage (cause: exn)

text \<open>
  A reply object: its class and constructor argument (\<open>body\<close>) and the two attributes that
  are assigned on it after construction. \<open>component_is_singleton\<close> is the instance attribute
  (\<open>None\<close>: not assigned on the instance); \<open>request_id\<close> is the \<^verbatim>\<open>_request_id\<close> that the
  bus layer writes on a reply it sends.
\<close>

record msg =
  body :: msg_body
  component_is_singleton :: "bool option"
  request_id :: "nat option"

definition new_msg :: "msg_body \<Rightarrow> msg" where
  "new_msg b = \<lparr>body = b, component_is_singleton = None, request_id = None\<rparr>"

text \<open>
  Reading \<^verbatim>\<open>reply.component_is_singleton\<close>: the instance attribute if assigned, else the
  class attribute, which only \<^verbatim>\<open>SICStartedComponentInformation\<close> declares (\<open>False\<close>).
\<close>

definition is_singleton :: "msg \<Rightarrow> bool option" where
  "is_singleton m =
     (case component_is_singleton m of
        Some b \<Rightarrow> Some b
      | None \<Rightarrow> (case body m of SICStartedComponentInformation _ \<Rightarrow> Some False | _ \<Rightarrow> None))"

subsection \<open>Component classes and running components\<close>

text \<open>
  Modelled from the spec: \<^verbatim>\<open>get_output_channel\<close> and the component constructor, whose code
  is not in this file. The spec makes the output channel a deterministic function of
  (component class, device address), so it is a function field of the class taking the
  address; as any Python call it may raise, which is the \<open>Inl\<close> result. The constructor
  "produces a ComponentRuntimeInstance given (output channel, stop signal, ready signal,
  log level, configuration blob)": when it does not raise, the instance holds exactly what
  it was given.
\<close>

record component_class =
  get_component_name :: string
  get_output_channel :: "string \<Rightarrow> exn + string"
  COMPONENT_STARTUP_TIMEOUT :: nat

record component =
  component_class_name :: string
  component_output_channel :: string
  stop_event_of :: addr
  ready_event_of :: addr
  component_log_level :: nat
  component_conf :: "string option"

definition construct ::
  "component_class \<Rightarrow> string \<Rightarrow> addr \<Rightarrow> addr \<Rightarrow> nat \<Rightarrow> string option \<Rightarrow> component" where
  "construct cls ch stop_ev ready_ev lvl cf =
     \<lparr>component_class_name = get_component_name cls, component_output_channel = ch,
      stop_event_of = stop_ev, ready_event_of = ready_ev,
      component_log_level = lvl, component_conf = cf\<rparr>"

subsection \<open>The process and the manager\<close>

text \<open>
  What \<^verbatim>\<open>print\<close> and the logger were asked to write, in order, without the formatting.
  \<open>Log_Error_Refused_To_Start\<close> is the \<^verbatim>\<open>logger.error\<close> of line 173, with the class name and
  the timeout (the source formats the bound method \<^verbatim>\<open>component.get_component_name\<close>, not
  its result, which changes the text of the line only).
\<close>

datatype manager_class = SICComponentManager | SICSensorManager

datatype out_event =
    Log_Info_Manager_Starting string
  | Print_Starting_Component_Manager string
  | Print_Handling_Request manager_class string
  | Print_Ignored_Request manager_class string
  | Log_Error_Refused_To_Start string nat
  | Log_Info_Starting_New_Component string
  | Log_Info_Reusing_Existing_Component string
  | Print_Trying_To_Exit
  | Print_Graceful_Exit_Successful
  | Print_Graceful_Exit_Failed string
  | Print_Stopped_Component_Manager

record process =
  events :: "bool list"
  objects :: "msg list"
  started_components :: "string \<rightharpoonup> addr"
  trace :: "out_event list"

record manager =
  manager_class :: manager_class
  ip :: string
  active_components :: "component list"
  component_classes :: "string \<rightharpoonup> component_class"
  component_counter :: nat
  stop_event :: addr
  ready_event :: addr
  redis_closed :: bool

text \<open>\<^verbatim>\<open>threading.Event()\<close>, \<^verbatim>\<open>Event.set()\<close>, \<^verbatim>\<open>Event.is_set()\<close>.\<close>

definition new_event :: "process \<Rightarrow> addr \<times> process" where
  "new_event p = (length (events p), p\<lparr>events := events p @ [False]\<rparr>)"

definition event_set :: "addr \<Rightarrow> process \<Rightarrow> process" where
  "event_set a p = p\<lparr>events := (events p)[a := True]\<rparr>"

definition is_set :: "addr \<Rightarrow> process \<Rightarrow> bool" where
  "is_set a p = (a < length (events p) \<and> events p ! a)"

text \<open>
  Constructing a reply, \<^verbatim>\<open>copy.copy\<close> of one (a new object with the same attributes), and
  the two attribute assignments.
\<close>

definition new_object :: "msg \<Rightarrow> process \<Rightarrow> addr \<times> process" where
  "new_object m p = (length (objects p), p\<lparr>objects := objects p @ [m]\<rparr>)"

definition copy_object :: "addr \<Rightarrow> process \<Rightarrow> addr \<times> process" where
  "copy_object a p = new_object (objects p ! a) p"

definition set_component_is_singleton :: "addr \<Rightarrow> bool \<Rightarrow> process \<Rightarrow> process" where
  "set_component_is_singleton a b p =
     p\<lparr>objects := (objects p)[a := (objects p ! a)\<lparr>component_is_singleton := Some b\<rparr>]\<rparr>"

definition set_request_id :: "addr \<Rightarrow> nat \<Rightarrow> process \<Rightarrow> process" where
  "set_request_id a i p =
     p\<lparr>objects := (objects p)[a := (objects p ! a)\<lparr>request_id := Some i\<rparr>]\<rparr>"

definition emit :: "out_event \<Rightarrow> process \<Rightarrow> process" where
  "emit e p = p\<lparr>trace := trace p @ [e]\<rparr>"

text \<open>
  \<^verbatim>\<open>self.started_components\<close>: no method assigns the attribute on an instance (line 219
  assigns an item of the dictionary), so for every manager the lookup ends at the class
  attribute of line 202.
\<close>

definition started_components_of :: "manager \<Rightarrow> process \<Rightarrow> (string \<rightharpoonup> addr)" where
  "started_components_of self p = started_components p"

subsection \<open>\<^verbatim>\<open>__init__\<close>\<close>

text \<open>
  The device address, which the code takes from \<^verbatim>\<open>utils.get_ip_adress()\<close>, is an argument.
  In the registry a later class replaces an earlier one of the same name, as in the
  dictionary comprehension of line 62. The printed lines that list the registered
  components are not in the trace.
\<close>

definition mk_component_classes :: "component_class list \<Rightarrow> (string \<rightharpoonup> component_class)" where
  "mk_component_classes cs = fold (\<lambda>c m. m(get_component_name c \<mapsto> c)) cs Map.empty"

definition init :: "manager_class \<Rightarrow> string \<Rightarrow> component_class list \<Rightarrow> process \<Rightarrow> manager \<times> process" where
  "init k device_ip cs p =
     (let (stop_ev, p1) = new_event p;
          (ready_ev, p2) = new_event p1;
          p3 = emit (Log_Info_Manager_Starting device_ip) p2;
          p4 = emit (Print_Starting_Component_Manager device_ip) p3
      in (\<lparr>manager_class = k, ip = device_ip, active_components = [],
           component_classes = mk_component_classes cs, component_counter = 0,
           stop_event = stop_ev, ready_event = ready_ev, redis_closed = False\<rparr>,
          event_set ready_ev p4))"

subsection \<open>\<^verbatim>\<open>SICComponentManager.start_component\<close>\<close>

text \<open>
  What the collaborators do during one start: whether the constructor call of line 159
  raises, whether creating and starting the thread (lines 165 to 167) raises, and whether
  the launched thread sets the ready event before the wait of line 170 is over.
\<close>

record start_outcome =
  construct_raises :: "exn option"
  launch_raises :: "exn option"
  becomes_ready :: bool

text \<open>The body of the \<^verbatim>\<open>try\<close> (lines 157 to 184).\<close>

definition try_start ::
  "start_outcome \<Rightarrow> component_class \<Rightarrow> string \<Rightarrow> nat \<Rightarrow> string option \<Rightarrow> manager \<Rightarrow> process
     \<Rightarrow> (exn + addr) \<times> manager \<times> process" where
  "try_start oc cls ch lvl cf self p =
     (let (stop_ev, p1) = new_event p;
          (ready_ev, p2) = new_event p1
      in case construct_raises oc of
           Some e \<Rightarrow> (Inl e, self, p2)
         | None \<Rightarrow>
             (let component = construct cls ch stop_ev ready_ev lvl cf
              in case launch_raises oc of
                   Some e \<Rightarrow> (Inl e, self, p2)
                 | None \<Rightarrow>
                     (let p3 = (if becomes_ready oc then event_set (ready_event_of component) p2 else p2);
                          p4 = (if \<not> is_set (ready_event_of component) p3
                                then emit (Log_Error_Refused_To_Start (get_component_name cls)
                                             (COMPONENT_STARTUP_TIMEOUT cls)) p3
                                else p3);
                          self1 = self\<lparr>active_components := active_components self @ [component]\<rparr>;
                          (reply, p5) = new_object (new_msg (SICStartedComponentInformation ch)) p4
                      in (Inr reply, self1, p5))))"

definition start_component ::
  "start_outcome \<Rightarrow> request \<Rightarrow> manager \<Rightarrow> process \<Rightarrow> (exn + addr) \<times> manager \<times> process" where
  "start_component oc request self p =
     (case request of
        SICStopRequest \<Rightarrow> (Inl AttributeError, self, p)
      | SICStartComponentRequest name lvl cf \<Rightarrow>
          (case component_classes self name of
             None \<Rightarrow> (Inl KeyError, self, p)
           | Some cls \<Rightarrow>
               (case get_output_channel cls (ip self) of
                  Inl e \<Rightarrow> (Inl e, self, p)
                | Inr ch \<Rightarrow>
                    (case try_start oc cls ch lvl cf self p of
                       (Inl e, self1, p1) \<Rightarrow>
                         (if is_Exception e
                          then (let (reply, p2) = new_object (new_msg (SICNotStartedMessage e)) p1
                                in (Inr reply, self1, p2))
                          else (Inl e, self1, p1))
                     | (Inr reply, self1, p1) \<Rightarrow> (Inr reply, self1, p1)))))"

subsection \<open>\<^verbatim>\<open>SICSensorManager.start_component\<close>\<close>

definition sensor_start_component ::
  "start_outcome \<Rightarrow> request \<Rightarrow> manager \<Rightarrow> process \<Rightarrow> (exn + addr) \<times> manager \<times> process" where
  "sensor_start_component oc request self p =
     (case request of
        SICStopRequest \<Rightarrow> (Inl AttributeError, self, p)
      | SICStartComponentRequest name lvl cf \<Rightarrow>
          (case component_classes self name of
             None \<Rightarrow> (Inl KeyError, self, p)
           | Some cls \<Rightarrow>
               (case started_components_of self p (get_component_name cls) of
                  None \<Rightarrow>
                    (case start_component oc request self (emit (Log_Info_Starting_New_Component name) p) of
                       (Inl e, self1, p1) \<Rightarrow> (Inl e, self1, p1)
                     | (Inr reply, self1, p1) \<Rightarrow>
                         (let p2 = set_component_is_singleton reply True p1;
                              p3 = p2\<lparr>started_components :=
                                        (started_components p2)(get_component_name cls \<mapsto> reply)\<rparr>;
                              (reply_copy, p4) = copy_object reply p3
                          in (Inr reply_copy, self1, p4)))
                | Some reply \<Rightarrow>
                    (let p1 = emit (Log_Info_Reusing_Existing_Component (get_component_name cls)) p;
                         (reply_copy, p2) = copy_object reply p1
                     in (Inr reply_copy, self, p2)))))"

subsection \<open>\<^verbatim>\<open>_handle_request\<close>\<close>

text \<open>\<^verbatim>\<open>self.start_component\<close> is the method of the manager's own class.\<close>

definition self_start_component ::
  "start_outcome \<Rightarrow> request \<Rightarrow> manager \<Rightarrow> process \<Rightarrow> (exn + addr) \<times> manager \<times> process" where
  "self_start_component oc request self p =
     (case manager_class self of
        SICComponentManager \<Rightarrow> start_component oc request self p
      | SICSensorManager \<Rightarrow> sensor_start_component oc request self p)"

definition handle_request ::
  "start_outcome \<Rightarrow> request \<Rightarrow> manager \<Rightarrow> process \<Rightarrow> (exn + addr) \<times> manager \<times> process" where
  "handle_request oc request self p =
     (case request of
        SICStopRequest \<Rightarrow>
          (let p1 = event_set (stop_event self) p;
               (reply, p2) = new_object (new_msg SICSuccessMessage) p1
           in (Inr reply, self, p2))
      | SICStartComponentRequest name lvl cf \<Rightarrow>
          (if name \<in> dom (component_classes self)
           then self_start_component oc request self
                  (emit (Print_Handling_Request (manager_class self) name) p)
           else (let p1 = emit (Print_Ignored_Request (manager_class self) name) p;
                     (reply, p2) = new_object (new_msg SICIgnoreRequestMessage) p1
                 in (Inr reply, self, p2))))"

subsection \<open>\<^verbatim>\<open>shutdown\<close> and \<^verbatim>\<open>serve\<close>\<close>

text \<open>
  What the collaborators do during one shutdown: whether \<^verbatim>\<open>self.redis.close()\<close> raises,
  and whether \<^verbatim>\<open>component._stop_event.set()\<close> raises for a component.
\<close>

record shutdown_outcome =
  close_raises :: "exn option"
  set_raises :: "component \<Rightarrow> exn option"

text \<open>The \<^verbatim>\<open>for\<close> loop of lines 194 and 195; it ends at the first exception.\<close>

fun signal_components ::
  "(component \<Rightarrow> exn option) \<Rightarrow> component list \<Rightarrow> process \<Rightarrow> exn option \<times> process" where
  "signal_components f [] p = (None, p)"
| "signal_components f (c # cs) p =
     (case f c of
        Some e \<Rightarrow> (Some e, p)
      | None \<Rightarrow> signal_components f cs (event_set (stop_event_of c) p))"

text \<open>
  The result is the exception that leaves \<^verbatim>\<open>shutdown\<close>, if any. The clause of line 197
  catches instances of \<^verbatim>\<open>Exception\<close>; anything else leaves \<^verbatim>\<open>shutdown\<close> as it was raised.
  In the handler, \<^verbatim>\<open>err.message\<close> is an attribute lookup on the caught exception, and raises
  \<^verbatim>\<open>AttributeError\<close> when the exception has no such attribute.
\<close>

definition report_failure :: "exn \<Rightarrow> manager \<Rightarrow> process \<Rightarrow> exn option \<times> manager \<times> process" where
  "report_failure err self p =
     (if is_Exception err
      then (case exn_message err of
              None \<Rightarrow> (Some AttributeError, self, p)
            | Some m \<Rightarrow> (None, self, emit (Print_Graceful_Exit_Failed m) p))
      else (Some err, self, p))"

definition shutdown :: "shutdown_outcome \<Rightarrow> manager \<Rightarrow> process \<Rightarrow> exn option \<times> manager \<times> process" where
  "shutdown so self p =
     (let p0 = emit Print_Trying_To_Exit p in
      case close_raises so of
        Some err \<Rightarrow> report_failure err self p0
      | None \<Rightarrow>
          (case signal_components (set_raises so) (active_components self) p0 of
             (Some err, p1) \<Rightarrow> report_failure err (self\<lparr>redis_closed := True\<rparr>) p1
           | (None, p1) \<Rightarrow>
               (None, self\<lparr>redis_closed := True\<rparr>, emit Print_Graceful_Exit_Successful p1)))"

text \<open>
  The loop of \<^verbatim>\<open>serve\<close> polls the stop event every tenth of a second and has no other
  exit. The first argument bounds the number of polls: \<open>None\<close> means that \<^verbatim>\<open>serve\<close> has not
  returned after that many polls. The stop event is set by \<open>handle_request\<close>, which the bus
  runs on its own thread; \<open>serve\<close> sees the store as the handler left it.
\<close>

fun serve :: "nat \<Rightarrow> shutdown_outcome \<Rightarrow> manager \<Rightarrow> process \<Rightarrow> (exn option \<times> manager \<times> process) option" where
  "serve 0 so self p = None"
| "serve (Suc n) so self p =
     (if is_set (stop_event self) p
      then (case shutdown so self p of
              (Some e, self1, p1) \<Rightarrow> Some (Some e, self1, p1)
            | (None, self1, p1) \<Rightarrow> Some (None, self1, emit Print_Stopped_Component_Manager p1))
      else serve n so self p)"

subsection \<open>Invariants of the store\<close>

text \<open>
  A Python reference always denotes an object. In the store that is a fact to keep: the
  manager's stop event exists, and the stop events of its active components exist and are
  other objects than the manager's own.
\<close>

definition manager_ok :: "manager \<Rightarrow> process \<Rightarrow> bool" where
  "manager_ok self p =
     (stop_event self < length (events p) \<and>
      list_all (\<lambda>c. stop_event_of c < length (events p) \<and> stop_event_of c \<noteq> stop_event self)
        (active_components self))"

text \<open>An entry of the singleton cache denotes a reply object that was marked as singleton.\<close>

definition cache_entry_ok :: "process \<Rightarrow> string \<Rightarrow> bool" where
  "cache_entry_ok p k =
     (case started_components p k of
        None \<Rightarrow> True
      | Some a \<Rightarrow> a < length (objects p) \<and> component_is_singleton (objects p ! a) = Some True)"

text \<open>
  What a call may do to a manager and the events: the manager keeps its stop event, no
  event object disappears, and the list of active components is as before or has one more
  component, whose stop event was created during the call.
\<close>

definition grows :: "manager \<Rightarrow> process \<Rightarrow> manager \<Rightarrow> process \<Rightarrow> bool" where
  "grows self p self1 p1 =
     (stop_event self1 = stop_event self \<and> length (events p) \<le> length (events p1)
      \<and> (active_components self1 = active_components self
          \<or> (\<exists>c. active_components self1 = active_components self @ [c]
                  \<and> stop_event_of c = length (events p) \<and> stop_event_of c < length (events p1))))"

subsection \<open>A device with the components echo, motor and camera\<close>

definition empty_process :: process where
  "empty_process = \<lparr>events = [], objects = [], started_components = Map.empty, trace = []\<rparr>"

definition echo :: component_class where
  "echo = \<lparr>get_component_name = ''echo'', get_output_channel = (\<lambda>a. Inr (''echo:'' @ a)),
           COMPONENT_STARTUP_TIMEOUT = 10\<rparr>"

definition motor :: component_class where
  "motor = \<lparr>get_component_name = ''motor'', get_output_channel = (\<lambda>a. Inr (''motor:'' @ a)),
            COMPONENT_STARTUP_TIMEOUT = 10\<rparr>"

text \<open>A component class whose \<^verbatim>\<open>get_output_channel\<close> raises.\<close>

definition camera :: component_class where
  "camera = \<lparr>get_component_name = ''camera'',
             get_output_channel = (\<lambda>a. Inl (Exn ''TypeError'' None True)),
             COMPONENT_STARTUP_TIMEOUT = 10\<rparr>"

definition starts_ok :: start_outcome where
  "starts_ok = \<lparr>construct_raises = None, launch_raises = None, becomes_ready = True\<rparr>"

definition never_ready :: start_outcome where
  "never_ready = \<lparr>construct_raises = None, launch_raises = None, becomes_ready = False\<rparr>"

definition construct_fails :: start_outcome where
  "construct_fails = \<lparr>construct_raises = Some (Exn ''IOError'' (Some ''no device'') True),
                      launch_raises = None, becomes_ready = False\<rparr>"

text \<open>A constructor that calls \<^verbatim>\<open>sys.exit\<close>: what it raises is not an instance of
  \<^verbatim>\<open>Exception\<close>.\<close>

definition construct_exits :: start_outcome where
  "construct_exits = \<lparr>construct_raises = Some (Exn ''SystemExit'' None False),
                      launch_raises = None, becomes_ready = False\<rparr>"

definition start_echo :: request where
  "start_echo = SICStartComponentRequest ''echo'' 20 None"

definition plain_start :: "manager \<times> process" where
  "plain_start = init SICComponentManager ''10.0.0.5'' [echo, motor, camera] empty_process"

definition sensor_start :: "manager \<times> process" where
  "sensor_start = init SICSensorManager ''10.0.0.5'' [echo, motor] empty_process"

text \<open>The sensor manager is asked for echo twice; only the first construction fails.\<close>

definition sensor_failed_once :: "(exn + addr) \<times> manager \<times> process" where
  "sensor_failed_once = handle_request construct_fails start_echo (fst sensor_start) (snd sensor_start)"

definition sensor_asked_again :: "(exn + addr) \<times> manager \<times> process" where
  "sensor_asked_again =
     handle_request starts_ok start_echo (fst (snd sensor_failed_once)) (snd (snd sensor_failed_once))"

text \<open>A bus connection whose \<^verbatim>\<open>close\<close> raises an exception without a \<^verbatim>\<open>message\<close> attribute.\<close>

definition close_raises_plain :: shutdown_outcome where
  "close_raises_plain =
     \<lparr>close_raises = Some (Exn ''ConnectionError'' None True), set_raises = (\<lambda>c. None)\<rparr>"

text \<open>A bus connection whose \<^verbatim>\<open>close\<close> raises an exception that has a message, and a
  shutdown in which nothing raises.\<close>

definition close_fails :: shutdown_outcome where
  "close_fails = \<lparr>close_raises = Some (Exn ''ConnectionError'' (Some ''connection lost'') True),
                  set_raises = (\<lambda>c. None)\<rparr>"

definition shutdown_ok :: shutdown_outcome where
  "shutdown_ok = \<lparr>close_raises = None, set_raises = (\<lambda>c. None)\<rparr>"

text \<open>The plain manager starts echo, is asked to stop, and serves.\<close>

definition plain_running :: "(exn + addr) \<times> manager \<times> process" where
  "plain_running = handle_request starts_ok start_echo (fst plain_start) (snd plain_start)"

definition plain_stopping :: "(exn + addr) \<times> manager \<times> process" where
  "plain_stopping =
     handle_request starts_ok SICStopRequest (fst (snd plain_running)) (snd (snd plain_running))"

definition plain_served :: "(exn option \<times> manager \<times> process) option" where
  "plain_served = serve 1 close_fails (fst (snd plain_stopping)) (snd (snd plain_stopping))"

definition plain_served_ok :: "(exn option \<times> manager \<times> process) option" where
  "plain_served_ok = serve 1 shutdown_ok (fst (snd plain_stopping)) (snd (snd plain_stopping))"

text \<open>The plain manager starts echo twice, by \<open>start_component\<close> itself.\<close>

definition echo_started :: "(exn + addr) \<times> manager \<times> process" where
  "echo_started = start_component starts_ok start_echo (fst plain_start) (snd plain_start)"

definition echo_started_again :: "(exn + addr) \<times> manager \<times> process" where
  "echo_started_again =
     start_component never_ready start_echo (fst (snd echo_started)) (snd (snd echo_started))"

text \<open>
  A second sensor manager is constructed in the process of the first. The first handles a
  start of echo, then the second is asked for echo.
\<close>

definition sensor_second :: "manager \<times> process" where
  "sensor_second = init SICSensorManager ''10.0.0.5'' [echo] (snd sensor_start)"

definition first_sensor_started :: "(exn + addr) \<times> manager \<times> process" where
  "first_sensor_started = handle_request starts_ok start_echo (fst sensor_start) (snd sensor_second)"

definition second_sensor_asked :: "(exn + addr) \<times> manager \<times> process" where
  "second_sensor_asked =
     handle_request starts_ok start_echo (fst sensor_second) (snd (snd first_sensor_started))"

definition sensor_echo_started :: "(exn + addr) \<times> manager \<times> process" where
  "sensor_echo_started =
     sensor_start_component starts_ok start_echo (fst sensor_start) (snd sensor_second)"

definition sensor_echo_shared :: "(exn + addr) \<times> manager \<times> process" where
  "sensor_echo_shared =
     sensor_start_component never_ready start_echo (fst sensor_second) (snd (snd sensor_echo_started))"

text \<open>
  One sensor manager is asked for echo twice; between the two requests the bus layer
  writes the request id 7 on the first reply.
\<close>

definition sensor_first_failed :: "(exn + addr) \<times> manager \<times> process" where
  "sensor_first_failed =
     sensor_start_component construct_fails start_echo (fst sensor_start) (snd sensor_start)"

definition sensor_first_reply :: "(exn + addr) \<times> manager \<times> process" where
  "sensor_first_reply =
     sensor_start_component starts_ok start_echo (fst sensor_start) (snd sensor_start)"

definition sensor_second_reply :: "(exn + addr) \<times> manager \<times> process" where
  "sensor_second_reply =
     sensor_start_component starts_ok start_echo (fst (snd sensor_first_reply))
       (set_request_id 1 7 (snd (snd sensor_first_reply)))"

section \<open>Properties\<close>

lemmas store_defs = new_event_def event_set_def is_set_def new_object_def copy_object_def
  set_component_is_singleton_def set_request_id_def emit_def new_msg_def started_components_of_def

subsection \<open>The example device, evaluated\<close>

lemma plain_start_eq:
  "plain_start =
     (\<lparr>manager_class = SICComponentManager, ip = ''10.0.0.5'', active_components = [],
       component_classes = [''echo'' \<mapsto> echo, ''motor'' \<mapsto> motor, ''camera'' \<mapsto> camera],
       component_counter = 0, stop_event = 0, ready_event = 1, redis_closed = False\<rparr>,
      \<lparr>events = [False, True], objects = [], started_components = Map.empty,
       trace = [Log_Info_Manager_Starting ''10.0.0.5'', Print_Starting_Component_Manager ''10.0.0.5'']\<rparr>)"
  by (simp add: plain_start_def init_def mk_component_classes_def store_defs empty_process_def
        echo_def motor_def camera_def)

lemma sensor_start_eq:
  "sensor_start =
     (\<lparr>manager_class = SICSensorManager, ip = ''10.0.0.5'', active_components = [],
       component_classes = [''echo'' \<mapsto> echo, ''motor'' \<mapsto> motor],
       component_counter = 0, stop_event = 0, ready_event = 1, redis_closed = False\<rparr>,
      \<lparr>events = [False, True], objects = [], started_components = Map.empty,
       trace = [Log_Info_Manager_Starting ''10.0.0.5'', Print_Starting_Component_Manager ''10.0.0.5'']\<rparr>)"
  by (simp add: sensor_start_def init_def mk_component_classes_def store_defs empty_process_def
        echo_def motor_def)

lemma sensor_second_eq:
  "sensor_second =
     (\<lparr>manager_class = SICSensorManager, ip = ''10.0.0.5'', active_components = [],
       component_classes = [''echo'' \<mapsto> echo],
       component_counter = 0, stop_event = 2, ready_event = 3, redis_closed = False\<rparr>,
      \<lparr>events = [False, True, False, True], objects = [], started_components = Map.empty,
       trace = [Log_Info_Manager_Starting ''10.0.0.5'', Print_Starting_Component_Manager ''10.0.0.5'',
                Log_Info_Manager_Starting ''10.0.0.5'', Print_Starting_Component_Manager ''10.0.0.5'']\<rparr>)"
  by (simp add: sensor_second_def sensor_start_eq init_def mk_component_classes_def store_defs echo_def)

lemma plain_running_eq:
  "plain_running =
     (Inr 0,
      (fst plain_start)\<lparr>active_components := [construct echo ''echo:10.0.0.5'' 2 3 20 None]\<rparr>,
      \<lparr>events = [False, True, False, True],
       objects = [new_msg (SICStartedComponentInformation ''echo:10.0.0.5'')],
       started_components = Map.empty,
       trace = [Log_Info_Manager_Starting ''10.0.0.5'', Print_Starting_Component_Manager ''10.0.0.5'',
                Print_Handling_Request SICComponentManager ''echo'']\<rparr>)"
  by (simp add: plain_running_def plain_start_eq start_echo_def starts_ok_def echo_def
        handle_request_def self_start_component_def start_component_def try_start_def
        construct_def store_defs)

lemma echo_started_eq:
  "echo_started =
     (Inr 0,
      (fst plain_start)\<lparr>active_components := [construct echo ''echo:10.0.0.5'' 2 3 20 None]\<rparr>,
      \<lparr>events = [False, True, False, True],
       objects = [new_msg (SICStartedComponentInformation ''echo:10.0.0.5'')],
       started_components = Map.empty,
       trace = [Log_Info_Manager_Starting ''10.0.0.5'', Print_Starting_Component_Manager ''10.0.0.5'']\<rparr>)"
  by (simp add: echo_started_def plain_start_eq start_echo_def starts_ok_def echo_def
        start_component_def try_start_def construct_def store_defs)

lemma echo_started_again_eq:
  "echo_started_again =
     (Inr 1,
      (fst plain_start)\<lparr>active_components :=
         [construct echo ''echo:10.0.0.5'' 2 3 20 None, construct echo ''echo:10.0.0.5'' 4 5 20 None]\<rparr>,
      \<lparr>events = [False, True, False, True, False, False],
       objects = [new_msg (SICStartedComponentInformation ''echo:10.0.0.5''),
                  new_msg (SICStartedComponentInformation ''echo:10.0.0.5'')],
       started_components = Map.empty,
       trace = [Log_Info_Manager_Starting ''10.0.0.5'', Print_Starting_Component_Manager ''10.0.0.5'',
                Log_Error_Refused_To_Start ''echo'' 10]\<rparr>)"
  by (simp add: echo_started_again_def echo_started_eq plain_start_eq start_echo_def never_ready_def
        echo_def start_component_def try_start_def construct_def store_defs)

lemma sensor_echo_started_eq:
  "sensor_echo_started =
     (Inr 1,
      (fst sensor_start)\<lparr>active_components := [construct echo ''echo:10.0.0.5'' 4 5 20 None]\<rparr>,
      \<lparr>events = [False, True, False, True, False, True],
       objects = [\<lparr>body = SICStartedComponentInformation ''echo:10.0.0.5'',
                   component_is_singleton = Some True, request_id = None\<rparr>,
                  \<lparr>body = SICStartedComponentInformation ''echo:10.0.0.5'',
                   component_is_singleton = Some True, request_id = None\<rparr>],
       started_components = [''echo'' \<mapsto> 0],
       trace = [Log_Info_Manager_Starting ''10.0.0.5'', Print_Starting_Component_Manager ''10.0.0.5'',
                Log_Info_Manager_Starting ''10.0.0.5'', Print_Starting_Component_Manager ''10.0.0.5'',
                Log_Info_Starting_New_Component ''echo'']\<rparr>)"
  by (simp add: sensor_echo_started_def sensor_second_eq sensor_start_eq start_echo_def starts_ok_def
        echo_def sensor_start_component_def start_component_def try_start_def construct_def store_defs)

lemma sensor_first_reply_eq:
  "sensor_first_reply =
     (Inr 1,
      (fst sensor_start)\<lparr>active_components := [construct echo ''echo:10.0.0.5'' 2 3 20 None]\<rparr>,
      \<lparr>events = [False, True, False, True],
       objects = [\<lparr>body = SICStartedComponentInformation ''echo:10.0.0.5'',
                   component_is_singleton = Some True, request_id = None\<rparr>,
                  \<lparr>body = SICStartedComponentInformation ''echo:10.0.0.5'',
                   component_is_singleton = Some True, request_id = None\<rparr>],
       started_components = [''echo'' \<mapsto> 0],
       trace = [Log_Info_Manager_Starting ''10.0.0.5'', Print_Starting_Component_Manager ''10.0.0.5'',
                Log_Info_Starting_New_Component ''echo'']\<rparr>)"
  by (simp add: sensor_first_reply_def sensor_start_eq start_echo_def starts_ok_def
        echo_def sensor_start_component_def start_component_def try_start_def construct_def store_defs)

subsection \<open>Events\<close>

lemma is_set_event_set: "is_set a p \<Longrightarrow> is_set a (event_set b p)"
  by (cases "b < length (events p)")
     (auto simp add: event_set_def is_set_def nth_list_update)

lemma event_set_frame:
  "length (events (event_set b p)) = length (events p) \<and> objects (event_set b p) = objects p
   \<and> started_components (event_set b p) = started_components p \<and> trace (event_set b p) = trace p"
  by (simp add: event_set_def)

lemma signal_components_frame:
  "signal_components f cs p = (r, p1) \<Longrightarrow>
     length (events p1) = length (events p) \<and> objects p1 = objects p
     \<and> started_components p1 = started_components p \<and> trace p1 = trace p
     \<and> (\<forall>a. is_set a p \<longrightarrow> is_set a p1)"
proof (induction cs arbitrary: p)
  case Nil
  then show ?case by simp
next
  case (Cons c cs)
  show ?case
  proof (cases "f c")
    case None
    with Cons.prems have "signal_components f cs (event_set (stop_event_of c) p) = (r, p1)"
      by simp
    from Cons.IH [OF this] event_set_frame [of "stop_event_of c" p]
      is_set_event_set [of _ p "stop_event_of c"]
    show ?thesis by auto
  next
    case (Some e)
    with Cons.prems show ?thesis by simp
  qed
qed

lemma signal_components_all_set:
  "list_all (\<lambda>c. f c = None \<and> stop_event_of c < length (events p)) cs \<Longrightarrow>
     \<exists>p1. signal_components f cs p = (None, p1)
          \<and> list_all (\<lambda>c. is_set (stop_event_of c) p1) cs"
proof (induction cs arbitrary: p)
  case Nil
  then show ?case by simp
next
  case (Cons c cs)
  let ?q = "event_set (stop_event_of c) p"
  from Cons.prems have c: "f c = None" "stop_event_of c < length (events p)"
    and rest: "list_all (\<lambda>c. f c = None \<and> stop_event_of c < length (events ?q)) cs"
    by (simp_all add: event_set_def)
  from Cons.IH [OF rest] obtain p1 where
    run: "signal_components f cs ?q = (None, p1)"
    and sig: "list_all (\<lambda>c. is_set (stop_event_of c) p1) cs"
    by blast
  from c have "is_set (stop_event_of c) ?q"
    by (simp add: event_set_def is_set_def)
  with signal_components_frame [OF run] have "is_set (stop_event_of c) p1" by blast
  with run sig c show ?case by simp
qed

lemma signal_components_raises:
  "signal_components f cs p = (Some e, p1) \<Longrightarrow> \<exists>c\<in>set cs. f c = Some e"
  by (induction cs arbitrary: p) (auto split: option.splits)

subsection \<open>What a start returns\<close>

lemma start_component_Inr:
  assumes "start_component oc rq self p = (Inr r, self1, p1)"
  shows "r = length (objects p) \<and> (\<exists>b. objects p1 = objects p @ [new_msg b])
         \<and> started_components p1 = started_components p
         \<and> component_classes self1 = component_classes self \<and> ip self1 = ip self
         \<and> manager_class self1 = manager_class self \<and> stop_event self1 = stop_event self"
  using assms
  by (auto simp add: start_component_def try_start_def store_defs Let_def
        split: request.splits option.splits sum.splits if_splits prod.splits)

lemma start_component_Inl:
  assumes "start_component oc (SICStartComponentRequest name lvl cf) self p = (Inl e, self1, p1)"
      and "component_classes self name = Some cls"
  shows "get_output_channel cls (ip self) = Inl e
         \<or> (\<not> is_Exception e \<and> (construct_raises oc = Some e \<or> launch_raises oc = Some e))"
  using assms
  by (auto simp add: start_component_def try_start_def store_defs Let_def
        split: option.splits sum.splits if_splits prod.splits)

lemma start_component_reply:
  assumes "component_classes self name = Some cls"
      and "start_component oc (SICStartComponentRequest name lvl cf) self p = (Inr r, self1, p1)"
  shows "\<exists>ch. get_output_channel cls (ip self) = Inr ch \<and>
           (body (objects p1 ! r) = SICStartedComponentInformation ch
            \<or> (\<exists>e. body (objects p1 ! r) = SICNotStartedMessage e))"
  using assms
  by (auto simp add: start_component_def try_start_def store_defs Let_def
        split: option.splits sum.splits if_splits prod.splits)

lemma start_component_objects:
  "start_component oc rq self p = (res, self1, p1) \<Longrightarrow>
     started_components p1 = started_components p \<and> (\<exists>ms. objects p1 = objects p @ ms)"
  by (auto simp add: start_component_def try_start_def store_defs Let_def
        split: request.splits option.splits sum.splits if_splits prod.splits)

text \<open>The two branches of the singleton manager's method.\<close>

lemma sensor_start_component_uncached:
  assumes "component_classes self name = Some cls"
      and "started_components_of self p (get_component_name cls) = None"
      and "sensor_start_component oc (SICStartComponentRequest name lvl cf) self p = (Inr r, self1, p1)"
  shows "\<exists>b. r = Suc (length (objects p))
           \<and> objects p1 = objects p @ [b\<lparr>component_is_singleton := Some True\<rparr>,
                                       b\<lparr>component_is_singleton := Some True\<rparr>]
           \<and> started_components p1 = (started_components p)(get_component_name cls \<mapsto> length (objects p))
           \<and> component_classes self1 = component_classes self
           \<and> (\<forall>ch. body b = SICStartedComponentInformation ch
                  \<longrightarrow> get_output_channel cls (ip self) = Inr ch)"
proof -
  let ?q = "emit (Log_Info_Starting_New_Component name) p"
  from assms obtain a q1 where
    base: "start_component oc (SICStartComponentRequest name lvl cf) self ?q = (Inr a, self1, q1)"
    and rest: "r = length (objects q1)"
      "p1 = (set_component_is_singleton a True q1)
              \<lparr>started_components :=
                  (started_components (set_component_is_singleton a True q1))(get_component_name cls \<mapsto> a),
               objects := objects (set_component_is_singleton a True q1)
                  @ [objects (set_component_is_singleton a True q1) ! a]\<rparr>"
    by (auto simp add: sensor_start_component_def Let_def copy_object_def new_object_def
          set_component_is_singleton_def
          split: sum.splits prod.splits)
  from start_component_Inr [OF base] obtain b where
    b: "a = length (objects p)" "objects q1 = objects p @ [new_msg b]"
    "started_components q1 = started_components p" "component_classes self1 = component_classes self"
    by (auto simp add: emit_def)
  from start_component_reply [OF assms(1) base] b
  have "\<forall>ch. body (new_msg b) = SICStartedComponentInformation ch
          \<longrightarrow> get_output_channel cls (ip self) = Inr ch"
    by auto
  with rest b show ?thesis
    by (auto simp add: set_component_is_singleton_def nth_append)
qed

lemma sensor_start_component_cached:
  assumes "component_classes self name = Some cls"
      and "started_components_of self p (get_component_name cls) = Some a"
  shows "sensor_start_component oc (SICStartComponentRequest name lvl cf) self p
           = (Inr (length (objects p)), self,
              p\<lparr>trace := trace p @ [Log_Info_Reusing_Existing_Component (get_component_name cls)],
                objects := objects p @ [objects p ! a]\<rparr>)"
  using assms
  by (simp add: sensor_start_component_def Let_def store_defs)

subsection \<open>The invariants hold from construction on\<close>

lemma start_component_grows:
  "start_component oc rq self p = (res, self1, p1) \<Longrightarrow> grows self p self1 p1"
  by (auto simp add: grows_def start_component_def try_start_def construct_def store_defs Let_def
        split: request.splits option.splits sum.splits if_splits prod.splits)

lemma sensor_start_component_grows:
  assumes "sensor_start_component oc rq self p = (res, self1, p1)"
  shows "grows self p self1 p1"
proof (cases rq)
  case SICStopRequest
  with assms show ?thesis by (simp add: sensor_start_component_def grows_def)
next
  case (SICStartComponentRequest name lvl cf)
  show ?thesis
  proof (cases "component_classes self name")
    case None
    with assms SICStartComponentRequest show ?thesis
      by (simp add: sensor_start_component_def grows_def)
  next
    case (Some cls)
    note reg = this
    show ?thesis
    proof (cases "started_components_of self p (get_component_name cls)")
      case (Some a)
      with assms SICStartComponentRequest reg show ?thesis
        by (auto simp add: sensor_start_component_def grows_def store_defs Let_def)
    next
      case None
      let ?q = "emit (Log_Info_Starting_New_Component name) p"
      obtain res0 self0 q0 where base: "start_component oc rq self ?q = (res0, self0, q0)"
        by (cases "start_component oc rq self ?q") auto
      from start_component_grows [OF base] have g: "grows self p self0 q0"
        by (simp add: grows_def emit_def)
      from assms SICStartComponentRequest reg None base
      have "self1 = self0 \<and> length (events p1) = length (events q0)"
        by (auto simp add: sensor_start_component_def store_defs Let_def split: sum.splits)
      with g show ?thesis by (simp add: grows_def)
    qed
  qed
qed

lemma handle_request_grows:
  assumes "handle_request oc rq self p = (res, self1, p1)"
  shows "grows self p self1 p1"
proof (cases rq)
  case SICStopRequest
  with assms show ?thesis
    by (auto simp add: handle_request_def grows_def store_defs Let_def)
next
  case (SICStartComponentRequest name lvl cf)
  show ?thesis
  proof (cases "name \<in> dom (component_classes self)")
    case False
    with assms SICStartComponentRequest show ?thesis
      by (auto simp add: handle_request_def grows_def store_defs Let_def)
  next
    case True
    let ?q = "emit (Print_Handling_Request (manager_class self) name) p"
    from assms SICStartComponentRequest True
    have "self_start_component oc rq self ?q = (res, self1, p1)"
      by (simp add: handle_request_def)
    then have "grows self ?q self1 p1"
      by (cases "manager_class self")
         (simp_all add: self_start_component_def start_component_grows sensor_start_component_grows)
    then show ?thesis by (simp add: grows_def emit_def)
  qed
qed

lemma init_manager_ok: "init k a cs p = (self, p1) \<Longrightarrow> manager_ok self p1"
  by (auto simp add: init_def manager_ok_def store_defs Let_def)

lemma handle_request_manager_ok:
  assumes "manager_ok self p" and "handle_request oc rq self p = (res, self1, p1)"
  shows "manager_ok self1 p1"
proof -
  from handle_request_grows [OF assms(2)]
  have stop: "stop_event self1 = stop_event self"
    and len: "length (events p) \<le> length (events p1)"
    and act: "active_components self1 = active_components self
          \<or> (\<exists>c. active_components self1 = active_components self @ [c]
                  \<and> stop_event_of c = length (events p) \<and> stop_event_of c < length (events p1))"
    by (simp_all add: grows_def)
  from assms(1) have own: "stop_event self < length (events p)"
    and old: "\<forall>c\<in>set (active_components self).
                stop_event_of c < length (events p) \<and> stop_event_of c \<noteq> stop_event self"
    by (simp_all add: manager_ok_def list_all_iff)
  from old len have old1: "\<forall>c\<in>set (active_components self).
                stop_event_of c < length (events p1) \<and> stop_event_of c \<noteq> stop_event self"
    by force
  from act own old1 have "\<forall>c\<in>set (active_components self1).
                stop_event_of c < length (events p1) \<and> stop_event_of c \<noteq> stop_event self"
    by auto
  with own len stop show ?thesis
    by (simp add: manager_ok_def list_all_iff)
qed

lemma cache_entry_ok_append:
  assumes "cache_entry_ok p k"
      and "started_components p1 = started_components p"
      and "objects p1 = objects p @ ms"
  shows "cache_entry_ok p1 k"
  using assms by (auto simp add: cache_entry_ok_def nth_append split: option.splits)

lemma sensor_start_component_cache_ok:
  assumes "\<forall>k. cache_entry_ok p k"
      and "sensor_start_component oc rq self p = (res, self1, p1)"
  shows "cache_entry_ok p1 k"
proof (cases rq)
  case SICStopRequest
  with assms show ?thesis by (simp add: sensor_start_component_def)
next
  case (SICStartComponentRequest name lvl cf)
  show ?thesis
  proof (cases "component_classes self name")
    case None
    with assms SICStartComponentRequest show ?thesis
      by (simp add: sensor_start_component_def)
  next
    case (Some cls)
    note reg = this
    show ?thesis
    proof (cases "started_components_of self p (get_component_name cls)")
      case (Some a)
      from assms(2) SICStartComponentRequest reg Some
      have "started_components p1 = started_components p" "objects p1 = objects p @ [objects p ! a]"
        by (auto simp add: sensor_start_component_def store_defs Let_def)
      with assms(1) show ?thesis by (blast intro: cache_entry_ok_append)
    next
      case None
      let ?q = "emit (Log_Info_Starting_New_Component name) p"
      show ?thesis
      proof (cases res)
        case (Inl e)
        with assms(2) SICStartComponentRequest reg None
        have "start_component oc rq self ?q = (Inl e, self1, p1)"
          by (auto simp add: sensor_start_component_def Let_def copy_object_def new_object_def
                split: sum.splits prod.splits)
        from start_component_objects [OF this]
        have "started_components p1 = started_components p" "\<exists>ms. objects p1 = objects p @ ms"
          by (simp_all add: emit_def)
        with assms(1) show ?thesis by (blast intro: cache_entry_ok_append)
      next
        case (Inr r)
        with assms(2) SICStartComponentRequest
        have run: "sensor_start_component oc (SICStartComponentRequest name lvl cf) self p
                     = (Inr r, self1, p1)"
          by simp
        from sensor_start_component_uncached [OF reg None run] obtain b where
          objs: "objects p1 = objects p @ [b\<lparr>component_is_singleton := Some True\<rparr>,
                                       b\<lparr>component_is_singleton := Some True\<rparr>]"
          and cache: "started_components p1
                        = (started_components p)(get_component_name cls \<mapsto> length (objects p))"
          by blast
        from assms(1) have "cache_entry_ok p k" by simp
        with objs cache show ?thesis
          by (auto simp add: cache_entry_ok_def nth_append split: option.splits)
      qed
    qed
  qed
qed

subsection \<open>Where an exception can leave the manager\<close>

text \<open>
  Of the calls that the embedding lets raise, two let an exception leave \<open>handle_request\<close>:
  \<^verbatim>\<open>get_output_channel\<close> of the registered class, with whatever it raises, and the
  constructor or the launch, with an object that is not an instance of \<^verbatim>\<open>Exception\<close>.
\<close>

lemma handle_request_Inl:
  assumes "handle_request oc rq self p = (Inl e, self1, p1)"
  shows "\<exists>name lvl cf cls. rq = SICStartComponentRequest name lvl cf
           \<and> component_classes self name = Some cls
           \<and> (get_output_channel cls (ip self) = Inl e
                \<or> (\<not> is_Exception e \<and> (construct_raises oc = Some e \<or> launch_raises oc = Some e)))"
proof (cases rq)
  case SICStopRequest
  with assms show ?thesis by (simp add: handle_request_def store_defs Let_def)
next
  case (SICStartComponentRequest name lvl cf)
  show ?thesis
  proof (cases "component_classes self name")
    case None
    with assms SICStartComponentRequest show ?thesis
      by (simp add: handle_request_def store_defs Let_def dom_def)
  next
    case (Some cls)
    let ?q = "emit (Print_Handling_Request (manager_class self) name) p"
    from assms SICStartComponentRequest Some
    have run: "self_start_component oc (SICStartComponentRequest name lvl cf) self ?q = (Inl e, self1, p1)"
      by (simp add: handle_request_def dom_def)
    have "get_output_channel cls (ip self) = Inl e
            \<or> (\<not> is_Exception e \<and> (construct_raises oc = Some e \<or> launch_raises oc = Some e))"
    proof (cases "manager_class self")
      case SICComponentManager
      with run Some show ?thesis
        by (auto simp add: self_start_component_def dest: start_component_Inl)
    next
      case SICSensorManager
      with run Some show ?thesis
        by (auto simp add: self_start_component_def sensor_start_component_def store_defs Let_def
              split: option.splits sum.splits prod.splits dest: start_component_Inl)
    qed
    with SICStartComponentRequest Some show ?thesis by simp
  qed
qed

text \<open>
  Of the calls that the embedding lets raise, an exception leaves \<open>shutdown\<close> as the
  \<^verbatim>\<open>AttributeError\<close> of the handler, when the exception it caught has no \<^verbatim>\<open>message\<close>
  attribute, or as it was raised, when it is not an instance of \<^verbatim>\<open>Exception\<close>.
\<close>

lemma report_failure_raises:
  assumes "report_failure err self p = (Some e, self1, p1)"
  shows "(e = AttributeError \<and> exn_message err = None) \<or> (e = err \<and> \<not> is_Exception err)"
  using assms by (auto simp add: report_failure_def split: if_splits option.splits)

lemma shutdown_raises:
  assumes "shutdown so self p = (Some e, self1, p1)"
  shows "\<exists>err. (close_raises so = Some err \<or> (\<exists>c\<in>set (active_components self). set_raises so c = Some err))
           \<and> ((e = AttributeError \<and> exn_message err = None) \<or> (e = err \<and> \<not> is_Exception err))"
proof (cases "close_raises so")
  case (Some err)
  with assms have "report_failure err self (emit Print_Trying_To_Exit p) = (Some e, self1, p1)"
    by (simp add: shutdown_def Let_def)
  from report_failure_raises [OF this] Some show ?thesis by blast
next
  case None
  obtain r q where run: "signal_components (set_raises so) (active_components self)
                           (emit Print_Trying_To_Exit p) = (r, q)"
    by (cases "signal_components (set_raises so) (active_components self) (emit Print_Trying_To_Exit p)")
  with assms None obtain err where r: "r = Some err"
    and "report_failure err (self\<lparr>redis_closed := True\<rparr>) q = (Some e, self1, p1)"
    by (auto simp add: shutdown_def Let_def split: option.splits)
  from report_failure_raises [OF this(2)] run r
    signal_components_raises [of "set_raises so" "active_components self" _ err q]
  show ?thesis by blast
qed

text \<open>
  \<^verbatim>\<open>serve\<close> does not leave its loop, and so does not run \<^verbatim>\<open>shutdown\<close>, while the stop
  event is not set.
\<close>

lemma serve_waits: "\<not> is_set (stop_event self) p \<Longrightarrow> serve n so self p = None"
  by (induction n) simp_all

section \<open>The claims\<close>

subsection \<open>Replies and escaping exceptions\<close>

text \<open>
  C1. Every request is to produce exactly one reply, also when computing the output channel
  fails. The code calls \<^verbatim>\<open>get_output_channel\<close> on line 154, before the \<^verbatim>\<open>try\<close> of line
  156: for the registered class camera, whose \<^verbatim>\<open>get_output_channel\<close> raises, the handler
  returns no reply and the exception leaves it.
\<close>

theorem handle_request_output_channel_failure_escapes:
  "fst (handle_request starts_ok (SICStartComponentRequest ''camera'' 20 None)
         (fst plain_start) (snd plain_start)) = Inl (Exn ''TypeError'' None True)"
  by (simp add: plain_start_eq handle_request_def self_start_component_def start_component_def
        camera_def store_defs)

subsection \<open>The singleton cache\<close>

text \<open>
  C2, as the code has it. The cache is one dictionary of the class, read and written by
  every singleton manager of the process. When a manager handles a start for a class name
  that is not cached and the start succeeds (the reply \<open>r\<close> is a
  \<^verbatim>\<open>SICStartedComponentInformation\<close> with channel \<open>ch\<close>, the one \<^verbatim>\<open>get_output_channel\<close> gave
  for that manager), the object stored under the name is the one \<open>r\<close> is a copy of, marked
  as singleton. Any manager (\<open>other\<close>) that has a class of that name registered finds this
  entry, and its next start request for it returns a copy of the entry, with the same
  channel, and leaves that manager as it is, so nothing is started.
\<close>

theorem singleton_cache_shared_between_managers:
  assumes "component_classes self name = Some cls"
      and "started_components_of self p (get_component_name cls) = None"
      and "sensor_start_component oc (SICStartComponentRequest name lvl cf) self p = (Inr r, self1, p1)"
      and "body (objects p1 ! r) = SICStartedComponentInformation ch"
      and "component_classes other name2 = Some cls2"
      and "get_component_name cls2 = get_component_name cls"
  shows "\<exists>a p2. started_components_of other p1 (get_component_name cls) = Some a
           \<and> a < r
           \<and> objects p1 ! a = objects p1 ! r
           \<and> is_singleton (objects p1 ! a) = Some True
           \<and> get_output_channel cls (ip self) = Inr ch
           \<and> sensor_start_component oc2 (SICStartComponentRequest name2 lvl2 cf2) other p1
               = (Inr (Suc r), other, p2)
           \<and> objects p2 ! Suc r = objects p1 ! a
           \<and> body (objects p2 ! Suc r) = SICStartedComponentInformation ch"
proof -
  from sensor_start_component_uncached [OF assms(1-3)] obtain b where
    r: "r = Suc (length (objects p))"
    and objs: "objects p1 = objects p @ [b\<lparr>component_is_singleton := Some True\<rparr>,
                                       b\<lparr>component_is_singleton := Some True\<rparr>]"
    and cache: "started_components p1 = (started_components p)(get_component_name cls \<mapsto> length (objects p))"
    and chan: "\<forall>ch. body b = SICStartedComponentInformation ch
                 \<longrightarrow> get_output_channel cls (ip self) = Inr ch"
    by blast
  from assms(4) r objs have started: "body b = SICStartedComponentInformation ch"
    by (simp add: nth_append)
  with chan have channel: "get_output_channel cls (ip self) = Inr ch" by simp
  from cache assms(6)
  have hit: "started_components_of other p1 (get_component_name cls2) = Some (length (objects p))"
    by (simp add: started_components_of_def)
  from sensor_start_component_cached [OF assms(5) hit, of oc2 lvl2 cf2] r objs hit assms(6)
    started channel
  show ?thesis
    by (simp add: started_components_of_def is_singleton_def nth_append)
qed

theorem singleton_cache_shared_between_managers_witness:
  "component_classes (fst sensor_start) ''echo'' = Some echo
   \<and> started_components_of (fst sensor_start) (snd sensor_second) (get_component_name echo) = None
   \<and> fst sensor_echo_started = Inr 1
   \<and> body (objects (snd (snd sensor_echo_started)) ! 1) = SICStartedComponentInformation ''echo:10.0.0.5''
   \<and> component_classes (fst sensor_second) ''echo'' = Some echo
   \<and> started_components_of (fst sensor_second) (snd (snd sensor_echo_started)) ''echo'' = Some 0
   \<and> fst sensor_echo_shared = Inr 2
   \<and> active_components (fst (snd sensor_echo_shared)) = []
   \<and> objects (snd (snd sensor_echo_shared)) ! 2 = objects (snd (snd sensor_echo_started)) ! 0
   \<and> body (objects (snd (snd sensor_echo_shared)) ! 2) = SICStartedComponentInformation ''echo:10.0.0.5''"
proof -
  have h1: "component_classes (fst sensor_start) ''echo'' = Some echo"
    by (simp add: sensor_start_eq)
  have h2: "started_components_of (fst sensor_start) (snd sensor_second) (get_component_name echo) = None"
    by (simp add: sensor_second_eq started_components_of_def)
  have h3: "sensor_start_component starts_ok (SICStartComponentRequest ''echo'' 20 None)
              (fst sensor_start) (snd sensor_second)
            = (Inr 1, fst (snd sensor_echo_started), snd (snd sensor_echo_started))"
    using sensor_echo_started_eq by (simp add: sensor_echo_started_def start_echo_def)
  have h4: "body (objects (snd (snd sensor_echo_started)) ! 1)
              = SICStartedComponentInformation ''echo:10.0.0.5''"
    by (simp add: sensor_echo_started_eq)
  have h5: "component_classes (fst sensor_second) ''echo'' = Some echo"
    by (simp add: sensor_second_eq)
  from singleton_cache_shared_between_managers [OF h1 h2 h3 h4 h5 refl, of never_ready 20 None]
  obtain a p2 where
    "started_components_of (fst sensor_second) (snd (snd sensor_echo_started)) (get_component_name echo)
       = Some a"
    "sensor_start_component never_ready (SICStartComponentRequest ''echo'' 20 None) (fst sensor_second)
        (snd (snd sensor_echo_started)) = (Inr (Suc 1), fst sensor_second, p2)"
    "objects p2 ! Suc 1 = objects (snd (snd sensor_echo_started)) ! a"
    "body (objects p2 ! Suc 1) = SICStartedComponentInformation ''echo:10.0.0.5''"
    by blast
  then show ?thesis
    using h1 h2 h4 h5
    by (simp add: sensor_echo_shared_def start_echo_def sensor_echo_started_eq sensor_second_eq
          started_components_of_def echo_def numeral_2_eq_2)
qed

text \<open>
  C2, as stated, fails: it makes the cache state of one manager instance. Two sensor
  managers are constructed in one process (they are two instances: their stop events are
  two objects). Before the first handles a start of echo the second finds no entry for echo,
  afterwards it finds the reply at address 0, and asked for echo it answers with a copy and
  starts nothing.
\<close>

theorem singleton_cache_other_manager_changed:
  "stop_event (fst sensor_start) \<noteq> stop_event (fst sensor_second)
   \<and> started_components_of (fst sensor_second) (snd sensor_second) ''echo'' = None
   \<and> started_components_of (fst sensor_second) (snd (snd first_sensor_started)) ''echo'' = Some 0
   \<and> fst second_sensor_asked = Inr 2
   \<and> body (objects (snd (snd second_sensor_asked)) ! 2) = SICStartedComponentInformation ''echo:10.0.0.5''
   \<and> active_components (fst (snd second_sensor_asked)) = []"
  by (simp add: second_sensor_asked_def first_sensor_started_def sensor_second_eq sensor_start_eq
        start_echo_def starts_ok_def echo_def
        handle_request_def self_start_component_def sensor_start_component_def
        start_component_def try_start_def construct_def store_defs)

text \<open>
  C3. The singleton manager is to cache a reply only when the start succeeded. The code
  stores whatever the base method returns: after a start of echo whose constructor raised,
  the cache holds the failure reply at address 0, and the next request for echo, whose
  construction would succeed, gets a copy of that failure and starts nothing.
\<close>

theorem sensor_manager_caches_failure_reply:
  "fst sensor_failed_once = Inr 1
   \<and> started_components (snd (snd sensor_failed_once)) ''echo'' = Some 0
   \<and> body (objects (snd (snd sensor_failed_once)) ! 0)
       = SICNotStartedMessage (Exn ''IOError'' (Some ''no device'') True)
   \<and> fst sensor_asked_again = Inr 2
   \<and> body (objects (snd (snd sensor_asked_again)) ! 2)
       = SICNotStartedMessage (Exn ''IOError'' (Some ''no device'') True)
   \<and> active_components (fst (snd sensor_asked_again)) = []"
  by (simp add: sensor_asked_again_def sensor_failed_once_def sensor_start_eq start_echo_def
        construct_fails_def starts_ok_def echo_def
        handle_request_def self_start_component_def sensor_start_component_def
        start_component_def try_start_def store_defs)

text \<open>
  C6, as the code has it. A sensor manager is asked twice for the same class, and the first
  request returns the reply \<open>r1\<close>, a \<^verbatim>\<open>SICStartedComponentInformation\<close> with channel \<open>ch\<close>.
  Then \<open>r1\<close> is a copy of the cache entry \<open>a\<close>, at another address. Whatever request id \<open>i\<close>
  the bus layer writes on \<open>r1\<close>, the second request returns a third object, at \<open>Suc r1\<close>,
  equal to the cache entry, which is as it was: the id is on \<open>r1\<close> alone. Both replies are
  \<^verbatim>\<open>SICStartedComponentInformation\<close> with the channel \<open>ch\<close> and are marked as singleton. A
  request id written on the second reply changes neither the first reply nor the cache
  entry.
\<close>

theorem singleton_replies_equal_and_distinct:
  assumes "component_classes self name = Some cls"
      and "cache_entry_ok p (get_component_name cls)"
      and "sensor_start_component oc1 (SICStartComponentRequest name l1 c1) self p = (Inr r1, self1, p1)"
      and "body (objects p1 ! r1) = SICStartedComponentInformation ch"
  shows "\<exists>a p2. started_components p1 (get_component_name cls) = Some a \<and> a < r1
           \<and> objects p1 ! r1 = objects p1 ! a
           \<and> is_singleton (objects p1 ! r1) = Some True
           \<and> sensor_start_component oc2 (SICStartComponentRequest name l2 c2) self1 (set_request_id r1 i p1)
               = (Inr (Suc r1), self1, p2)
           \<and> objects p2 ! r1 = (objects p1 ! r1)\<lparr>request_id := Some i\<rparr>
           \<and> objects p2 ! a = objects p1 ! a
           \<and> objects p2 ! Suc r1 = objects p1 ! a
           \<and> is_singleton (objects p2 ! Suc r1) = Some True
           \<and> body (objects p2 ! r1) = SICStartedComponentInformation ch
           \<and> body (objects p2 ! Suc r1) = SICStartedComponentInformation ch
           \<and> output_channel (body (objects p2 ! r1)) = ch
           \<and> output_channel (body (objects p2 ! Suc r1)) = ch
           \<and> (\<forall>j. objects (set_request_id (Suc r1) j p2) ! r1 = objects p2 ! r1
                  \<and> objects (set_request_id (Suc r1) j p2) ! a = objects p2 ! a)"
proof (cases "started_components_of self p (get_component_name cls)")
  case None
  from sensor_start_component_uncached [OF assms(1) None assms(3)] obtain b where
    r: "r1 = Suc (length (objects p))"
    and objs: "objects p1 = objects p @ [b\<lparr>component_is_singleton := Some True\<rparr>,
                                       b\<lparr>component_is_singleton := Some True\<rparr>]"
    and cache: "started_components p1 = (started_components p)(get_component_name cls \<mapsto> length (objects p))"
    and reg: "component_classes self1 = component_classes self"
    by blast
  from assms(4) r objs have started: "body b = SICStartedComponentInformation ch"
    by (simp add: nth_append)
  from assms(1) reg have reg1: "component_classes self1 name = Some cls" by simp
  from cache have hit: "started_components_of self1 (set_request_id r1 i p1) (get_component_name cls)
                          = Some (length (objects p))"
    by (simp add: started_components_of_def set_request_id_def)
  from sensor_start_component_cached [OF reg1 hit, of oc2 l2 c2] r objs cache started
  show ?thesis
    by (simp add: set_request_id_def is_singleton_def nth_append)
next
  case (Some a)
  with assms(2) have a: "a < length (objects p)" "component_is_singleton (objects p ! a) = Some True"
    by (simp_all add: cache_entry_ok_def started_components_of_def)
  from sensor_start_component_cached [OF assms(1) Some, of oc1 l1 c1] assms(3)
  have first: "r1 = length (objects p)" "self1 = self"
    "p1 = p\<lparr>trace := trace p @ [Log_Info_Reusing_Existing_Component (get_component_name cls)],
            objects := objects p @ [objects p ! a]\<rparr>"
    by simp_all
  from assms(4) first have started: "body (objects p ! a) = SICStartedComponentInformation ch"
    by simp
  from Some first have hit: "started_components_of self (set_request_id r1 i p1) (get_component_name cls)
                          = Some a"
    by (simp add: started_components_of_def set_request_id_def)
  from sensor_start_component_cached [OF assms(1) hit, of oc2 l2 c2] first a Some started
  show ?thesis
    by (simp add: set_request_id_def is_singleton_def nth_append started_components_of_def)
qed

theorem singleton_replies_equal_and_distinct_witness:
  "component_classes (fst sensor_start) ''echo'' = Some echo
   \<and> cache_entry_ok (snd sensor_start) (get_component_name echo)
   \<and> fst sensor_first_reply = Inr 1
   \<and> body (objects (snd (snd sensor_first_reply)) ! 1) = SICStartedComponentInformation ''echo:10.0.0.5''
   \<and> started_components (snd (snd sensor_first_reply)) ''echo'' = Some 0
   \<and> fst sensor_second_reply = Inr 2
   \<and> request_id (objects (snd (snd sensor_second_reply)) ! 1) = Some 7
   \<and> request_id (objects (snd (snd sensor_second_reply)) ! 0) = None
   \<and> request_id (objects (snd (snd sensor_second_reply)) ! 2) = None
   \<and> body (objects (snd (snd sensor_second_reply)) ! 1) = SICStartedComponentInformation ''echo:10.0.0.5''
   \<and> body (objects (snd (snd sensor_second_reply)) ! 2) = SICStartedComponentInformation ''echo:10.0.0.5''
   \<and> is_singleton (objects (snd (snd sensor_second_reply)) ! 1) = Some True
   \<and> is_singleton (objects (snd (snd sensor_second_reply)) ! 2) = Some True"
proof -
  have h1: "component_classes (fst sensor_start) ''echo'' = Some echo"
    by (simp add: sensor_start_eq)
  have h2: "cache_entry_ok (snd sensor_start) (get_component_name echo)"
    by (simp add: sensor_start_eq cache_entry_ok_def)
  have h3: "sensor_start_component starts_ok (SICStartComponentRequest ''echo'' 20 None)
              (fst sensor_start) (snd sensor_start)
            = (Inr 1, fst (snd sensor_first_reply), snd (snd sensor_first_reply))"
    using sensor_first_reply_eq by (simp add: sensor_first_reply_def start_echo_def)
  have h4: "body (objects (snd (snd sensor_first_reply)) ! 1)
              = SICStartedComponentInformation ''echo:10.0.0.5''"
    by (simp add: sensor_first_reply_eq)
  from singleton_replies_equal_and_distinct [OF h1 h2 h3 h4, of starts_ok 20 None 7]
  obtain a p2 where
    "started_components (snd (snd sensor_first_reply)) (get_component_name echo) = Some a"
    "sensor_start_component starts_ok (SICStartComponentRequest ''echo'' 20 None)
        (fst (snd sensor_first_reply)) (set_request_id 1 7 (snd (snd sensor_first_reply)))
       = (Inr (Suc 1), fst (snd sensor_first_reply), p2)"
    "objects p2 ! 1 = (objects (snd (snd sensor_first_reply)) ! 1)\<lparr>request_id := Some 7\<rparr>"
    "objects p2 ! a = objects (snd (snd sensor_first_reply)) ! a"
    "objects p2 ! Suc 1 = objects (snd (snd sensor_first_reply)) ! a"
    by blast
  then show ?thesis
    using h1 h2 h4
    by (simp add: sensor_second_reply_def start_echo_def sensor_first_reply_eq echo_def
          is_singleton_def numeral_2_eq_2)
qed

text \<open>
  C6, as stated for every component class, fails for a class whose start fails: the reply
  to the first of the two requests is then a \<^verbatim>\<open>SICNotStartedMessage\<close>, which has no output
  channel.
\<close>

theorem singleton_first_reply_without_channel:
  "component_classes (fst sensor_start) ''echo'' = Some echo
   \<and> fst sensor_first_failed = Inr 1
   \<and> body (objects (snd (snd sensor_first_failed)) ! 1)
       = SICNotStartedMessage (Exn ''IOError'' (Some ''no device'') True)"
  by (simp add: sensor_first_failed_def sensor_start_eq start_echo_def construct_fails_def echo_def
        sensor_start_component_def start_component_def try_start_def store_defs)

subsection \<open>The base \<^verbatim>\<open>start_component\<close>\<close>

text \<open>
  C4. When the constructor and the launch succeed and the ready event is not set when the
  wait is over, \<^verbatim>\<open>start_component\<close> logs the error, appends the component to the
  active list and returns the reply object \<^verbatim>\<open>SICStartedComponentInformation\<close> with the output
  channel.
\<close>

theorem start_component_ready_timeout_still_started:
  assumes "component_classes self name = Some cls"
      and "get_output_channel cls (ip self) = Inr ch"
      and "construct_raises oc = None"
      and "launch_raises oc = None"
      and "\<not> becomes_ready oc"
  shows "\<exists>p1.
           start_component oc (SICStartComponentRequest name lvl cf) self p
             = (Inr (length (objects p)),
                self\<lparr>active_components := active_components self @
                   [construct cls ch (length (events p)) (Suc (length (events p))) lvl cf]\<rparr>,
                p1)
         \<and> \<not> is_set (Suc (length (events p))) p1
         \<and> objects p1 = objects p @ [new_msg (SICStartedComponentInformation ch)]
         \<and> trace p1 = trace p @ [Log_Error_Refused_To_Start (get_component_name cls)
                                     (COMPONENT_STARTUP_TIMEOUT cls)]"
  using assms
  by (simp add: start_component_def try_start_def construct_def store_defs Let_def nth_append)

theorem start_component_ready_timeout_still_started_witness:
  "component_classes (fst plain_start) ''echo'' = Some echo
   \<and> get_output_channel echo (ip (fst plain_start)) = Inr ''echo:10.0.0.5''
   \<and> construct_raises never_ready = None \<and> launch_raises never_ready = None
   \<and> \<not> becomes_ready never_ready
   \<and> fst (start_component never_ready start_echo (fst plain_start) (snd plain_start)) = Inr 0
   \<and> active_components (fst (snd (start_component never_ready start_echo (fst plain_start) (snd plain_start))))
       = [construct echo ''echo:10.0.0.5'' 2 3 20 None]"
proof -
  have h1: "component_classes (fst plain_start) ''echo'' = Some echo"
    by (simp add: plain_start_eq)
  have h2: "get_output_channel echo (ip (fst plain_start)) = Inr ''echo:10.0.0.5''"
    by (simp add: plain_start_eq echo_def)
  have h3: "construct_raises never_ready = None" and h4: "launch_raises never_ready = None"
    and h5: "\<not> becomes_ready never_ready"
    by (simp_all add: never_ready_def)
  from start_component_ready_timeout_still_started [OF h1 h2 h3 h4 h5, of 20 None "snd plain_start"]
  obtain p1 where
    "start_component never_ready (SICStartComponentRequest ''echo'' 20 None) (fst plain_start) (snd plain_start)
       = (Inr (length (objects (snd plain_start))),
          (fst plain_start)\<lparr>active_components := active_components (fst plain_start) @
             [construct echo ''echo:10.0.0.5'' (length (events (snd plain_start)))
                (Suc (length (events (snd plain_start)))) 20 None]\<rparr>, p1)"
    by blast
  then show ?thesis
    using h1 h2 h3 h4 h5 by (simp add: start_echo_def plain_start_eq numeral_2_eq_2 numeral_3_eq_3)
qed

text \<open>
  C5, as the code has it. When the constructor raises, or the launch after it, and what is
  raised is an instance of \<^verbatim>\<open>Exception\<close>, \<^verbatim>\<open>start_component\<close> returns a
  \<^verbatim>\<open>SICNotStartedMessage\<close> that holds the exception, and the manager, with its list of
  active components, is as before. What is not an instance of \<^verbatim>\<open>Exception\<close> passes the
  clause of line 186 and leaves \<^verbatim>\<open>start_component\<close>; there is no reply, and the manager is
  as before.
\<close>

theorem start_component_factory_failure_not_started:
  assumes "component_classes self name = Some cls"
      and "get_output_channel cls (ip self) = Inr ch"
      and "construct_raises oc = Some e \<or> (construct_raises oc = None \<and> launch_raises oc = Some e)"
  shows "(is_Exception e \<longrightarrow>
            (\<exists>p1. start_component oc (SICStartComponentRequest name lvl cf) self p
                     = (Inr (length (objects p)), self, p1)
                 \<and> objects p1 = objects p @ [new_msg (SICNotStartedMessage e)]))
       \<and> (\<not> is_Exception e \<longrightarrow>
            (\<exists>p1. start_component oc (SICStartComponentRequest name lvl cf) self p = (Inl e, self, p1)
                 \<and> objects p1 = objects p))"
  using assms
  by (auto simp add: start_component_def try_start_def store_defs Let_def)

theorem start_component_factory_failure_not_started_witness:
  "component_classes (fst plain_start) ''echo'' = Some echo
   \<and> get_output_channel echo (ip (fst plain_start)) = Inr ''echo:10.0.0.5''
   \<and> construct_raises construct_fails = Some (Exn ''IOError'' (Some ''no device'') True)
   \<and> is_Exception (Exn ''IOError'' (Some ''no device'') True)
   \<and> start_component construct_fails start_echo (fst plain_start) (snd plain_start)
       = (Inr 0, fst plain_start,
          snd (snd (start_component construct_fails start_echo (fst plain_start) (snd plain_start))))
   \<and> objects (snd (snd (start_component construct_fails start_echo (fst plain_start) (snd plain_start))))
       = [new_msg (SICNotStartedMessage (Exn ''IOError'' (Some ''no device'') True))]"
proof -
  have h1: "component_classes (fst plain_start) ''echo'' = Some echo"
    by (simp add: plain_start_eq)
  have h2: "get_output_channel echo (ip (fst plain_start)) = Inr ''echo:10.0.0.5''"
    by (simp add: plain_start_eq echo_def)
  have h3: "construct_raises construct_fails = Some (Exn ''IOError'' (Some ''no device'') True)"
    by (simp add: construct_fails_def)
  have h4: "is_Exception (Exn ''IOError'' (Some ''no device'') True)"
    by simp
  from start_component_factory_failure_not_started [OF h1 h2 disjI1 [OF h3], of 20 None "snd plain_start"] h4
  obtain p1 where
    "start_component construct_fails (SICStartComponentRequest ''echo'' 20 None)
        (fst plain_start) (snd plain_start)
       = (Inr (length (objects (snd plain_start))), fst plain_start, p1)"
    and "objects p1 = objects (snd plain_start)
           @ [new_msg (SICNotStartedMessage (Exn ''IOError'' (Some ''no device'') True))]"
    by blast
  then show ?thesis
    using h1 h2 h3 by (simp add: start_echo_def plain_start_eq)
qed

text \<open>
  C5, as stated for everything a factory raises, fails: the constructor of echo calls
  \<^verbatim>\<open>sys.exit\<close>, the \<^verbatim>\<open>SystemExit\<close> passes \<^verbatim>\<open>except Exception\<close> and leaves
  \<^verbatim>\<open>start_component\<close>, and no \<^verbatim>\<open>SICNotStartedMessage\<close> is made.
\<close>

theorem start_component_system_exit_escapes:
  "component_classes (fst plain_start) ''echo'' = Some echo
   \<and> construct_raises construct_exits = Some (Exn ''SystemExit'' None False)
   \<and> fst (start_component construct_exits start_echo (fst plain_start) (snd plain_start))
       = Inl (Exn ''SystemExit'' None False)
   \<and> objects (snd (snd (start_component construct_exits start_echo (fst plain_start) (snd plain_start))))
       = []"
  by (simp add: plain_start_eq start_echo_def construct_exits_def echo_def
        start_component_def try_start_def store_defs)

text \<open>
  C7. The output channel of a reply is what \<^verbatim>\<open>get_output_channel\<close> of the registered
  class returns for the manager's address, whatever else the manager and the process hold:
  two starts of one name on one manager that both return a
  \<^verbatim>\<open>SICStartedComponentInformation\<close> return the same channel.
\<close>

theorem start_component_output_channel_deterministic:
  assumes "component_classes self name = Some cls"
      and "start_component oc1 (SICStartComponentRequest name l1 c1) self p = (Inr r1, self1, p1)"
      and "body (objects p1 ! r1) = SICStartedComponentInformation ch1"
      and "start_component oc2 (SICStartComponentRequest name l2 c2) self1 p1 = (Inr r2, self2, p2)"
      and "body (objects p2 ! r2) = SICStartedComponentInformation ch2"
  shows "get_output_channel cls (ip self) = Inr ch1 \<and> ch2 = ch1"
proof -
  from start_component_reply [OF assms(1) assms(2)] assms(3)
  have first: "get_output_channel cls (ip self) = Inr ch1" by auto
  from start_component_Inr [OF assms(2)]
  have same: "component_classes self1 = component_classes self" "ip self1 = ip self" by auto
  with assms(1) have "component_classes self1 name = Some cls" by simp
  from start_component_reply [OF this assms(4)] assms(5) same
  have "get_output_channel cls (ip self) = Inr ch2" by auto
  with first show ?thesis by simp
qed

theorem start_component_output_channel_deterministic_witness:
  "component_classes (fst plain_start) ''echo'' = Some echo
   \<and> fst echo_started = Inr 0
   \<and> body (objects (snd (snd echo_started)) ! 0) = SICStartedComponentInformation ''echo:10.0.0.5''
   \<and> fst echo_started_again = Inr 1
   \<and> body (objects (snd (snd echo_started_again)) ! 1) = SICStartedComponentInformation ''echo:10.0.0.5''
   \<and> get_output_channel echo (ip (fst plain_start)) = Inr ''echo:10.0.0.5''"
proof -
  have h1: "component_classes (fst plain_start) ''echo'' = Some echo"
    by (simp add: plain_start_eq)
  have h2: "start_component starts_ok (SICStartComponentRequest ''echo'' 20 None)
              (fst plain_start) (snd plain_start)
            = (Inr 0, fst (snd echo_started), snd (snd echo_started))"
    using echo_started_eq by (simp add: echo_started_def start_echo_def)
  have h3: "body (objects (snd (snd echo_started)) ! 0) = SICStartedComponentInformation ''echo:10.0.0.5''"
    by (simp add: echo_started_eq new_msg_def)
  have h4: "start_component never_ready (SICStartComponentRequest ''echo'' 20 None)
              (fst (snd echo_started)) (snd (snd echo_started))
            = (Inr 1, fst (snd echo_started_again), snd (snd echo_started_again))"
    using echo_started_again_eq by (simp add: echo_started_again_def start_echo_def)
  have h5: "body (objects (snd (snd echo_started_again)) ! 1)
              = SICStartedComponentInformation ''echo:10.0.0.5''"
    by (simp add: echo_started_again_eq new_msg_def)
  from start_component_output_channel_deterministic [OF h1 h2 h3 h4 h5]
  have "get_output_channel echo (ip (fst plain_start)) = Inr ''echo:10.0.0.5''" by simp
  with h1 h3 h5 show ?thesis
    by (simp add: echo_started_eq echo_started_again_eq)
qed

subsection \<open>Stopping\<close>

text \<open>
  C8, as the code has it. After a stop request is handled the manager's stop event is set;
  \<^verbatim>\<open>serve\<close> then leaves its loop at its next poll and runs \<^verbatim>\<open>shutdown\<close>; and when closing
  the bus connection and the signalling raise nothing, \<^verbatim>\<open>serve\<close> returns and every
  component of the active list has its stop event set. When closing the bus connection
  raises, \<^verbatim>\<open>shutdown\<close> sets no event.
\<close>

theorem stop_request_then_serve_signals:
  assumes "manager_ok self p"
      and "handle_request oc SICStopRequest self p = (res, self1, p1)"
  shows "is_set (stop_event self1) p1
       \<and> serve (Suc n) so self1 p1 =
           (case shutdown so self1 p1 of
              (Some e, self2, p2) \<Rightarrow> Some (Some e, self2, p2)
            | (None, self2, p2) \<Rightarrow> Some (None, self2, emit Print_Stopped_Component_Manager p2))
       \<and> (close_raises so = None \<and> list_all (\<lambda>c. set_raises so c = None) (active_components self) \<longrightarrow>
            (\<exists>self2 p2. serve (Suc n) so self1 p1 = Some (None, self2, p2)
               \<and> list_all (\<lambda>c. is_set (stop_event_of c) p2) (active_components self)))
       \<and> (close_raises so \<noteq> None \<longrightarrow> events (snd (snd (shutdown so self1 p1))) = events p1)"
proof -
  have skip: "close_raises so \<noteq> None \<longrightarrow> events (snd (snd (shutdown so self1 p1))) = events p1"
    by (auto simp add: shutdown_def report_failure_def Let_def emit_def split: option.splits)
  from assms have self1: "self1 = self"
    and ev: "length (events p1) = length (events p)"
    and stop: "is_set (stop_event self1) p1"
    by (auto simp add: handle_request_def manager_ok_def store_defs Let_def)
  have poll: "serve (Suc n) so self1 p1 =
           (case shutdown so self1 p1 of
              (Some e, self2, p2) \<Rightarrow> Some (Some e, self2, p2)
            | (None, self2, p2) \<Rightarrow> Some (None, self2, emit Print_Stopped_Component_Manager p2))"
    using stop by simp
  have "\<exists>self2 p2. serve (Suc n) so self1 p1 = Some (None, self2, p2)
               \<and> list_all (\<lambda>c. is_set (stop_event_of c) p2) (active_components self)"
    if ok: "close_raises so = None" "list_all (\<lambda>c. set_raises so c = None) (active_components self)"
  proof -
    let ?q = "emit Print_Trying_To_Exit p1"
    from assms(1) ev ok(2)
    have "list_all (\<lambda>c. set_raises so c = None \<and> stop_event_of c < length (events ?q))
            (active_components self)"
      by (auto simp add: manager_ok_def list_all_iff emit_def)
    from signal_components_all_set [OF this] obtain p2 where
      run: "signal_components (set_raises so) (active_components self) ?q = (None, p2)"
      and sig: "list_all (\<lambda>c. is_set (stop_event_of c) p2) (active_components self)"
      by blast
    from run ok(1) have "shutdown so self1 p1 =
        (None, self\<lparr>redis_closed := True\<rparr>, emit Print_Graceful_Exit_Successful p2)"
      by (simp add: shutdown_def self1 Let_def)
    with poll sig show ?thesis
      by (simp add: emit_def is_set_def)
  qed
  with stop poll skip show ?thesis by blast
qed

theorem stop_request_then_serve_signals_witness:
  "manager_ok (fst (snd plain_running)) (snd (snd plain_running))
   \<and> active_components (fst (snd plain_running)) = [construct echo ''echo:10.0.0.5'' 2 3 20 None]
   \<and> close_raises shutdown_ok = None
   \<and> set_raises shutdown_ok (construct echo ''echo:10.0.0.5'' 2 3 20 None) = None
   \<and> is_set (stop_event (fst (snd plain_stopping))) (snd (snd plain_stopping))
   \<and> plain_served_ok \<noteq> None
   \<and> fst (the plain_served_ok) = None
   \<and> is_set 2 (snd (snd (the plain_served_ok)))"
proof -
  have h1: "manager_ok (fst (snd plain_running)) (snd (snd plain_running))"
    by (simp add: plain_running_eq plain_start_eq manager_ok_def construct_def)
  have h2: "handle_request starts_ok SICStopRequest (fst (snd plain_running)) (snd (snd plain_running))
              = (fst plain_stopping, fst (snd plain_stopping), snd (snd plain_stopping))"
    by (simp add: plain_stopping_def)
  have h3: "close_raises shutdown_ok = None
              \<and> list_all (\<lambda>c. set_raises shutdown_ok c = None) (active_components (fst (snd plain_running)))"
    by (simp add: shutdown_ok_def plain_running_eq)
  from stop_request_then_serve_signals [OF h1 h2, of 0 shutdown_ok] h3
  obtain self2 p2 where
    "is_set (stop_event (fst (snd plain_stopping))) (snd (snd plain_stopping))"
    "serve (Suc 0) shutdown_ok (fst (snd plain_stopping)) (snd (snd plain_stopping)) = Some (None, self2, p2)"
    "list_all (\<lambda>c. is_set (stop_event_of c) p2) (active_components (fst (snd plain_running)))"
    by blast
  then show ?thesis
    using h1 h3 by (simp add: plain_served_ok_def plain_running_eq construct_def)
qed

text \<open>
  C8, as stated, fails on the path where closing the bus connection raises: the loop that
  signals the components is in the same \<^verbatim>\<open>try\<close>, after \<^verbatim>\<open>self.redis.close()\<close>, and is not
  run. The plain manager has started echo and is asked to stop; \<^verbatim>\<open>serve\<close> returns, and the
  stop event of the echo component is not set.
\<close>

theorem close_failure_leaves_component_unsignalled:
  "active_components (fst (snd plain_stopping)) = [construct echo ''echo:10.0.0.5'' 2 3 20 None]
   \<and> is_set (stop_event (fst (snd plain_stopping))) (snd (snd plain_stopping))
   \<and> plain_served \<noteq> None
   \<and> fst (the plain_served) = None
   \<and> \<not> is_set (stop_event_of (construct echo ''echo:10.0.0.5'' 2 3 20 None))
         (snd (snd (the plain_served)))"
  by (simp add: plain_served_def plain_stopping_def plain_running_eq plain_start_eq close_fails_def
        handle_request_def shutdown_def report_failure_def construct_def store_defs)

text \<open>
  C9. No exception is to leave \<^verbatim>\<open>shutdown\<close>, whatever the type of the exception it caught.
  The handler formats \<^verbatim>\<open>err.message\<close>: when closing the bus connection raises an exception
  without that attribute, the handler raises \<^verbatim>\<open>AttributeError\<close>, which leaves \<^verbatim>\<open>shutdown\<close>,
  and nothing is reported.
\<close>

theorem shutdown_report_raises_without_message:
  "fst (shutdown close_raises_plain (fst plain_start) (snd plain_start)) = Some AttributeError
   \<and> trace (snd (snd (shutdown close_raises_plain (fst plain_start) (snd plain_start))))
       = trace (snd plain_start) @ [Print_Trying_To_Exit]"
  by (simp add: plain_start_eq close_raises_plain_def shutdown_def report_failure_def store_defs)

text \<open>
  C10. Handling a stop request returns the manager as it was (its list of active components
  and its registry with it) and a reply. In the process it sets the manager's stop event
  and adds the reply object; every other event, in particular the stop event of every
  active component, the singleton cache and the trace are as before.
\<close>

theorem stop_request_sets_only_stop_signal:
  assumes "manager_ok self p"
  shows "\<exists>p1. handle_request oc SICStopRequest self p = (Inr (length (objects p)), self, p1)
     \<and> is_set (stop_event self) p1
     \<and> (\<forall>a. a \<noteq> stop_event self \<longrightarrow> is_set a p1 = is_set a p)
     \<and> list_all (\<lambda>c. is_set (stop_event_of c) p1 = is_set (stop_event_of c) p) (active_components self)
     \<and> started_components_of self p1 = started_components_of self p
     \<and> objects p1 = objects p @ [new_msg SICSuccessMessage]
     \<and> trace p1 = trace p"
  using assms
  by (auto simp add: handle_request_def manager_ok_def store_defs Let_def list_all_iff)

theorem stop_request_sets_only_stop_signal_witness:
  "manager_ok (fst (snd plain_running)) (snd (snd plain_running))
   \<and> fst plain_stopping = Inr 1
   \<and> fst (snd plain_stopping) = fst (snd plain_running)
   \<and> active_components (fst (snd plain_stopping)) = [construct echo ''echo:10.0.0.5'' 2 3 20 None]
   \<and> is_set 0 (snd (snd plain_stopping))
   \<and> \<not> is_set 2 (snd (snd plain_stopping))"
proof -
  have h1: "manager_ok (fst (snd plain_running)) (snd (snd plain_running))"
    by (simp add: plain_running_eq plain_start_eq manager_ok_def construct_def)
  from stop_request_sets_only_stop_signal [OF h1, of starts_ok]
  obtain p1 where
    run: "handle_request starts_ok SICStopRequest (fst (snd plain_running)) (snd (snd plain_running))
       = (Inr (length (objects (snd (snd plain_running)))), fst (snd plain_running), p1)"
    and own: "is_set (stop_event (fst (snd plain_running))) p1"
    and others: "\<forall>a. a \<noteq> stop_event (fst (snd plain_running))
                   \<longrightarrow> is_set a p1 = is_set a (snd (snd plain_running))"
    by blast
  from others have "is_set 2 p1 = is_set 2 (snd (snd plain_running))"
    by (simp add: plain_running_eq plain_start_eq)
  with run own h1 show ?thesis
    by (simp add: plain_stopping_def plain_running_eq plain_start_eq is_set_def)
qed

end
